theory Spec2Isabelle
  imports Main "HOL-Library.Sublist"
begin

section \<open>JSON values, \<open>JSON.parse\<close> and \<open>JSON.stringify\<close>\<close>

text \<open>
  The stream code builds JSON text by hand and reads it back with the platform's
  \<open>JSON.parse\<close>; the frame encoder uses \<open>JSON.stringify\<close>. Both are modelled here
  after the JSON grammar (ECMA-404). A string is a list of code units below 256;
  a number is kept as its literal text, since doubles are not modelled.
\<close>

datatype json =
    JNull
  | JBool bool
  | JNum string
  | JStr string
  | JArr "json list"
  | JObj "(string \<times> json) list"

datatype token =
    LBrace | RBrace | LBrack | RBrack | Colon | Comma
  | TStr string | TNum string | TTrue | TFalse | TNull

abbreviation quote :: char where "quote \<equiv> CHR 0x22"
abbreviation backslash :: char where "backslash \<equiv> CHR 0x5C"
abbreviation backspace :: char where "backspace \<equiv> CHR 0x08"
abbreviation tab :: char where "tab \<equiv> CHR 0x09"
abbreviation newline :: char where "newline \<equiv> CHR 0x0A"
abbreviation formfeed :: char where "formfeed \<equiv> CHR 0x0C"
abbreviation carriage_return :: char where "carriage_return \<equiv> CHR 0x0D"

definition is_ws :: "char \<Rightarrow> bool" where
  "is_ws c \<longleftrightarrow> c = CHR '' '' \<or> c = tab \<or> c = newline \<or> c = carriage_return"

definition is_control :: "char \<Rightarrow> bool" where
  "is_control c \<longleftrightarrow> (of_char c :: nat) < 32"

definition is_digit :: "char \<Rightarrow> bool" where
  "is_digit c \<longleftrightarrow> c \<in> set ''0123456789''"

definition num_char :: "char \<Rightarrow> bool" where
  "num_char c \<longleftrightarrow> c \<in> set ''0123456789+-.eE''"

fun hex_val :: "char \<Rightarrow> nat option" where
  "hex_val c =
     (let n = (of_char c :: nat) in
      if 48 \<le> n \<and> n \<le> 57 then Some (n - 48)
      else if 65 \<le> n \<and> n \<le> 70 then Some (n - 55)
      else if 97 \<le> n \<and> n \<le> 102 then Some (n - 87)
      else None)"

fun hex4 :: "char \<Rightarrow> char \<Rightarrow> char \<Rightarrow> char \<Rightarrow> nat option" where
  "hex4 a b c d =
     (case (hex_val a, hex_val b, hex_val c, hex_val d) of
        (Some x, Some y, Some z, Some w) \<Rightarrow> Some (((x * 16 + y) * 16 + z) * 16 + w)
      | _ \<Rightarrow> None)"

text \<open>The character a two-character escape \<open>\e\<close> stands for.\<close>

fun unescape :: "char \<Rightarrow> char option" where
  "unescape e =
     (if e = quote then Some quote
      else if e = backslash then Some backslash
      else if e = CHR ''/'' then Some (CHR ''/'')
      else if e = CHR ''b'' then Some backspace
      else if e = CHR ''f'' then Some formfeed
      else if e = CHR ''n'' then Some newline
      else if e = CHR ''r'' then Some carriage_return
      else if e = CHR ''t'' then Some tab
      else None)"

text \<open>
  \<open>lex_string cs\<close> reads a string literal whose opening quote has been consumed and
  returns its value with the text after the closing quote. An unescaped control
  character, a bad escape or a missing closing quote is a syntax error (\<open>None\<close>).
  A \<open>\u\<close> escape above \<open>00ff\<close> leaves the modelled alphabet and is reported as \<open>None\<close>.
\<close>

fun lex_string :: "string \<Rightarrow> (string \<times> string) option" where
  "lex_string [] = None"
| "lex_string (c # cs) =
     (if c = quote then Some ([], cs)
      else if c = backslash then
        (case cs of
           [] \<Rightarrow> None
         | e # cs' \<Rightarrow>
             if e = CHR ''u'' then
               (case cs' of
                  h1 # h2 # h3 # h4 # cs'' \<Rightarrow>
                    (case hex4 h1 h2 h3 h4 of
                       None \<Rightarrow> None
                     | Some n \<Rightarrow>
                         if n < 256 then map_option (apfst ((#) (char_of n))) (lex_string cs'')
                         else None)
                | _ \<Rightarrow> None)
             else
               (case unescape e of
                  None \<Rightarrow> None
                | Some d \<Rightarrow> map_option (apfst ((#) d)) (lex_string cs')))
      else if is_control c then None
      else map_option (apfst ((#) c)) (lex_string cs))"

text \<open>The number grammar: \<open>-? (0 | [1-9][0-9]*) (. [0-9]+)? ([eE] [+-]? [0-9]+)?\<close>.\<close>

definition valid_exp :: "string \<Rightarrow> bool" where
  "valid_exp s =
     (case s of
        [] \<Rightarrow> True
      | e # r \<Rightarrow>
          (e = CHR ''e'' \<or> e = CHR ''E'') \<and>
          (let d = (case r of s # r' \<Rightarrow> if s = CHR ''+'' \<or> s = CHR ''-'' then r' else r | [] \<Rightarrow> r)
           in d \<noteq> [] \<and> list_all is_digit d))"

definition valid_frac :: "string \<Rightarrow> bool" where
  "valid_frac s =
     (case s of
        [] \<Rightarrow> True
      | p # r \<Rightarrow>
          if p = CHR ''.'' then takeWhile is_digit r \<noteq> [] \<and> valid_exp (dropWhile is_digit r)
          else valid_exp s)"

definition valid_int :: "string \<Rightarrow> bool" where
  "valid_int s =
     (case s of
        [] \<Rightarrow> False
      | d # r \<Rightarrow>
          if d = CHR ''0'' then valid_frac r
          else is_digit d \<and> valid_frac (dropWhile is_digit r))"

definition valid_number :: "string \<Rightarrow> bool" where
  "valid_number s = (case s of [] \<Rightarrow> False | m # r \<Rightarrow> if m = CHR ''-'' then valid_int r else valid_int s)"

definition tok :: "token \<Rightarrow> token list option \<Rightarrow> token list option" where
  "tok t r = map_option ((#) t) r"

function tokenize :: "string \<Rightarrow> token list option" where
  "tokenize [] = Some []"
| "tokenize (c # cs) =
     (if is_ws c then tokenize cs
      else if c = CHR ''{'' then tok LBrace (tokenize cs)
      else if c = CHR ''}'' then tok RBrace (tokenize cs)
      else if c = CHR ''['' then tok LBrack (tokenize cs)
      else if c = CHR '']'' then tok RBrack (tokenize cs)
      else if c = CHR '':'' then tok Colon (tokenize cs)
      else if c = CHR '','' then tok Comma (tokenize cs)
      else if c = quote then
        (case lex_string cs of None \<Rightarrow> None | Some (s, r) \<Rightarrow> tok (TStr s) (tokenize r))
      else if num_char c then
        (if valid_number (c # takeWhile num_char cs)
         then tok (TNum (c # takeWhile num_char cs)) (tokenize (dropWhile num_char cs))
         else None)
      else if take 4 (c # cs) = ''true'' then tok TTrue (tokenize (drop 3 cs))
      else if take 5 (c # cs) = ''false'' then tok TFalse (tokenize (drop 4 cs))
      else if take 4 (c # cs) = ''null'' then tok TNull (tokenize (drop 3 cs))
      else None)"
  by pat_completeness auto
termination
proof -
  have shorter: "length r < length cs" if "lex_string cs = Some (s, r)" for cs s r
    using that
  proof (induction cs arbitrary: s r rule: lex_string.induct)
    case 1
    then show ?case by simp
  next
    case (2 c cs)
    then show ?case
      by (fastforce split: if_splits list.splits option.splits)
  qed
  show ?thesis
  proof (relation "measure length")
    show "wf (measure length)" by simp
  qed (auto dest: shorter simp: less_Suc_eq_le length_dropWhile_le)
qed

text \<open>
  A duplicate name keeps its first position and takes the later value, as property
  assignment on an object does.
\<close>

definition obj_put :: "string \<Rightarrow> json \<Rightarrow> (string \<times> json) list \<Rightarrow> (string \<times> json) list" where
  "obj_put k v ms =
     (if k \<in> fst ` set ms then map (\<lambda>(k', v'). if k' = k then (k', v) else (k', v')) ms
      else ms @ [(k, v)])"

text \<open>
  Recursive descent over the tokens. The first argument bounds the number of nested
  calls; every call hands on strictly fewer tokens, so the token count is enough.
\<close>

fun parse_value :: "nat \<Rightarrow> token list \<Rightarrow> (json \<times> token list) option"
  and parse_elements :: "nat \<Rightarrow> json list \<Rightarrow> token list \<Rightarrow> (json \<times> token list) option"
  and parse_members :: "nat \<Rightarrow> (string \<times> json) list \<Rightarrow> token list \<Rightarrow> (json \<times> token list) option"
where
  "parse_value 0 ts = None"
| "parse_value (Suc n) ts =
     (case ts of
        TStr s # r \<Rightarrow> Some (JStr s, r)
      | TNum s # r \<Rightarrow> Some (JNum s, r)
      | TTrue # r \<Rightarrow> Some (JBool True, r)
      | TFalse # r \<Rightarrow> Some (JBool False, r)
      | TNull # r \<Rightarrow> Some (JNull, r)
      | LBrack # RBrack # r \<Rightarrow> Some (JArr [], r)
      | LBrack # r \<Rightarrow>
          (case parse_value n r of
             None \<Rightarrow> None
           | Some (v, r') \<Rightarrow> parse_elements n [v] r')
      | LBrace # RBrace # r \<Rightarrow> Some (JObj [], r)
      | LBrace # TStr k # Colon # r \<Rightarrow>
          (case parse_value n r of
             None \<Rightarrow> None
           | Some (v, r') \<Rightarrow> parse_members n [(k, v)] r')
      | _ \<Rightarrow> None)"
| "parse_elements 0 vs ts = None"
| "parse_elements (Suc n) vs ts =
     (case ts of
        RBrack # r \<Rightarrow> Some (JArr vs, r)
      | Comma # r \<Rightarrow>
          (case parse_value n r of
             None \<Rightarrow> None
           | Some (v, r') \<Rightarrow> parse_elements n (vs @ [v]) r')
      | _ \<Rightarrow> None)"
| "parse_members 0 ms ts = None"
| "parse_members (Suc n) ms ts =
     (case ts of
        RBrace # r \<Rightarrow> Some (JObj ms, r)
      | Comma # TStr k # Colon # r \<Rightarrow>
          (case parse_value n r of
             None \<Rightarrow> None
           | Some (v, r') \<Rightarrow> parse_members n (obj_put k v ms) r')
      | _ \<Rightarrow> None)"

text \<open>\<open>JSON.parse\<close>: \<open>None\<close> stands for the \<open>SyntaxError\<close> it throws.\<close>

definition JSON_parse :: "string \<Rightarrow> json option" where
  "JSON_parse s =
     (case tokenize s of
        None \<Rightarrow> None
      | Some ts \<Rightarrow>
          (case parse_value (length ts) ts of
             Some (v, []) \<Rightarrow> Some v
           | _ \<Rightarrow> None))"


text \<open>\<open>JSON.stringify\<close> on a \<open>JSONValue\<close>.\<close>

definition hex_digit :: "nat \<Rightarrow> char" where
  "hex_digit n = ''0123456789abcdef'' ! (n mod 16)"

definition quote_char :: "char \<Rightarrow> string" where
  "quote_char c =
     (if c = quote then [backslash, quote]
      else if c = backslash then [backslash, backslash]
      else if c = backspace then [backslash, CHR ''b'']
      else if c = formfeed then [backslash, CHR ''f'']
      else if c = newline then [backslash, CHR ''n'']
      else if c = carriage_return then [backslash, CHR ''r'']
      else if c = tab then [backslash, CHR ''t'']
      else if is_control c then
        [backslash, CHR ''u'', CHR ''0'', CHR ''0'', hex_digit (of_char c div 16), hex_digit (of_char c)]
      else [c])"

definition JSON_quote :: "string \<Rightarrow> string" where
  "JSON_quote s = quote # concat (map quote_char s) @ [quote]"

fun join :: "string \<Rightarrow> string list \<Rightarrow> string" where
  "join sep [] = []"
| "join sep [x] = x"
| "join sep (x # y # ys) = x @ sep @ join sep (y # ys)"

fun JSON_stringify :: "json \<Rightarrow> string" where
  "JSON_stringify JNull = ''null''"
| "JSON_stringify (JBool b) = (if b then ''true'' else ''false'')"
| "JSON_stringify (JNum n) = n"
| "JSON_stringify (JStr s) = JSON_quote s"
| "JSON_stringify (JArr vs) = ''['' @ join '','' (map JSON_stringify vs) @ '']''"
| "JSON_stringify (JObj ms) =
     ''{'' @ join '','' (map (\<lambda>m. JSON_quote (fst m) @ '':'' @ JSON_stringify (snd m)) ms) @ ''}''"

section \<open>The frame protocol (shared utilities)\<close>

datatype stream_key = Key_text | Key_function_call | Key_data

fun StreamStringPrefixes :: "stream_key \<Rightarrow> nat" where
  "StreamStringPrefixes Key_text = 0"
| "StreamStringPrefixes Key_function_call = 1"
| "StreamStringPrefixes Key_data = 2"

text \<open>The decimal text of a number below ten, as the template literal renders a prefix.\<close>

definition digit_string :: "nat \<Rightarrow> string" where
  "digit_string n = [''0123456789'' ! n]"

text \<open>
  \<open>getStreamString\<close>: the prefix, a colon, the value verbatim when it is a string and
  its JSON serialization otherwise, and a newline.
\<close>

definition getStreamString :: "stream_key \<Rightarrow> json \<Rightarrow> string" where
  "getStreamString type v =
     digit_string (StreamStringPrefixes type) @ '':'' @
     (case v of JStr s \<Rightarrow> s | _ \<Rightarrow> JSON_stringify v) @ [newline]"

text \<open>\<open>String.prototype.split\<close> on a one-character separator.\<close>

fun split :: "char \<Rightarrow> string \<Rightarrow> string list" where
  "split sep [] = [[]]"
| "split sep (c # cs) =
     (if c = sep then [] # split sep cs
      else (case split sep cs of [] \<Rightarrow> [[c]] | l # ls \<Rightarrow> (c # l) # ls))"

text \<open>
  Modelled from the spec: \<open>parseStreamPart\<close> of \<open>./stream-parts\<close>, which is not among
  the sources. "Decode: given one line (already split on newline ...), match the
  leading \<open><digit>:\<close> prefix to a kind and return \<open>{type, value}\<close>; lines failing to
  match a known prefix are dropped (not errors)." The value is the text after the
  prefix.
\<close>

definition parseStreamPart :: "string \<Rightarrow> (stream_key \<times> json) option" where
  "parseStreamPart line =
     (case line of
        d # c # payload \<Rightarrow>
          if c \<noteq> CHR '':'' then None
          else if d = CHR ''0'' then Some (Key_text, JStr payload)
          else if d = CHR ''1'' then Some (Key_function_call, JStr payload)
          else if d = CHR ''2'' then Some (Key_data, JStr payload)
          else None
      | _ \<Rightarrow> None)"

text \<open>
  \<open>createChunkDecoder(complex)\<close>. Bytes are their decoded text; an absent chunk is
  \<open>None\<close>. The simple decoder returns the text, the complex one the parsed lines.
\<close>

definition createChunkDecoder :: "bool \<Rightarrow> string option \<Rightarrow> string + (stream_key \<times> json) list" where
  "createChunkDecoder complex chunk =
     (if \<not> complex then Inl (case chunk of None \<Rightarrow> [] | Some c \<Rightarrow> c)
      else
        (let decoded = filter (\<lambda>line. line \<noteq> []) (split newline (case chunk of None \<Rightarrow> [] | Some c \<Rightarrow> c))
         in Inr (List.map_filter parseStreamPart decoded)))"

section \<open>The provider delta extractor (OpenAI stream)\<close>

text \<open>
  The chunk types follow the interfaces declared in the stream module; fields the
  extractor never reads are left out. An optional or null field is an \<open>option\<close>.
  \<open>ToolCallFunction\<close> has the fields of \<open>FunctionCall\<close>.
\<close>

record FunctionCall =
  arguments :: "string option"
  name :: "string option"

record DeltaToolCall =
  tc_index :: nat
  tc_id :: "string option"
  tc_function :: "FunctionCall option"

record ChoiceDelta =
  content :: "string option"
  function_call :: "FunctionCall option"
  tool_calls :: "DeltaToolCall list option"

record ChatCompletionChunkChoice =
  delta :: ChoiceDelta
  finish_reason :: "string option"

record CompletionChoice =
  choice_text :: string

datatype chunk =
    ChatCompletionChunk "ChatCompletionChunkChoice list"
  | Completion "CompletionChoice list"

text \<open>What the extractor returns: a text, or \<open>{isText: false, content}\<close>.\<close>

datatype message = Text string | Structured string

fun message_content :: "message \<Rightarrow> string" where
  "message_content (Text s) = s"
| "message_content (Structured s) = s"

text \<open>A value is truthy when it is defined and, for a string, not empty.\<close>

fun truthy :: "string option \<Rightarrow> bool" where
  "truthy None = False"
| "truthy (Some s) = (s \<noteq> [])"

text \<open>\<open>${x}\<close> in a template literal.\<close>

fun template :: "string option \<Rightarrow> string" where
  "template None = ''undefined''"
| "template (Some s) = s"

definition js_whitespace :: "char \<Rightarrow> bool" where
  "js_whitespace c \<longleftrightarrow>
     (let n = (of_char c :: nat) in (9 \<le> n \<and> n \<le> 13) \<or> n = 32 \<or> n = 160)"

definition trimStart :: "string \<Rightarrow> string" where
  "trimStart s = dropWhile js_whitespace s"

text \<open>\<open>trimStartOfStreamHelper\<close>: the closure's flag is passed in and returned.\<close>

definition trimStartOfStream :: "bool \<Rightarrow> string \<Rightarrow> string \<times> bool" where
  "trimStartOfStream isStreamStart s =
     (if isStreamStart then (trimStart s, if trimStart s \<noteq> [] then False else True)
      else (s, isStreamStart))"

text \<open>\<open>s.replace(/c/g, r)\<close> for a single character \<open>c\<close>.\<close>

definition replace :: "char \<Rightarrow> string \<Rightarrow> string \<Rightarrow> string" where
  "replace c r s = concat (map (\<lambda>x. if x = c then r else [x]) s)"

definition cleanupArguments :: "string \<Rightarrow> string" where
  "cleanupArguments argumentChunk =
     replace formfeed [backslash, CHR ''f'']
       (replace tab [backslash, CHR ''t'']
         (replace carriage_return [backslash, CHR ''r'']
           (replace newline [backslash, CHR ''n'']
             (replace quote [backslash, quote]
               (replace (CHR ''/'') [backslash, CHR ''/'']
                 (replace backslash [backslash, backslash] argumentChunk))))))"

fun isChatCompletionChunk :: "chunk \<Rightarrow> bool" where
  "isChatCompletionChunk (ChatCompletionChunk cs) = (cs \<noteq> [])"
| "isChatCompletionChunk (Completion cs) = False"

fun isCompletion :: "chunk \<Rightarrow> bool" where
  "isCompletion (Completion cs) = (cs \<noteq> [])"
| "isCompletion (ChatCompletionChunk cs) = False"

record extract_state =
  isStreamStart :: bool
  isFunctionStreamingIn :: bool

definition chunkToText_init :: extract_state where
  "chunkToText_init = \<lparr>isStreamStart = True, isFunctionStreamingIn = False\<rparr>"

text \<open>\<open>delta.tool_calls?.[0]\<close> and the optional chains that start from it.\<close>

definition first_tool_call :: "ChoiceDelta \<Rightarrow> DeltaToolCall option" where
  "first_tool_call d =
     (case tool_calls d of None \<Rightarrow> None | Some [] \<Rightarrow> None | Some (t # ts) \<Rightarrow> Some t)"

definition opt_name :: "FunctionCall option \<Rightarrow> string option" where
  "opt_name f = (case f of None \<Rightarrow> None | Some fc \<Rightarrow> name fc)"

definition opt_arguments :: "FunctionCall option \<Rightarrow> string option" where
  "opt_arguments f = (case f of None \<Rightarrow> None | Some fc \<Rightarrow> arguments fc)"

definition opt_function :: "DeltaToolCall option \<Rightarrow> FunctionCall option" where
  "opt_function t = (case t of None \<Rightarrow> None | Some tc \<Rightarrow> tc_function tc)"

text \<open>The plain-text branch at the end of the extractor.\<close>

definition chunk_text :: "chunk \<Rightarrow> string" where
  "chunk_text json =
     (case json of
        ChatCompletionChunk (c # cs) \<Rightarrow>
          (if truthy (content (delta c)) then template (content (delta c)) else [])
      | Completion (c # cs) \<Rightarrow> choice_text c
      | _ \<Rightarrow> [])"

text \<open>
  The function returned by \<open>chunkToText\<close>, one call. The two captured variables are
  the state. The branches are those of the source, in its order.
\<close>

definition chunkToText :: "extract_state \<Rightarrow> chunk \<Rightarrow> message \<times> extract_state" where
  \<open>chunkToText st json =
     (let plain = (let (t, s') = trimStartOfStream (isStreamStart st) (chunk_text json)
                   in (Text t, st\<lparr>isStreamStart := s'\<rparr>))
      in case json of
        ChatCompletionChunk (c # cs) \<Rightarrow>
          (let d = delta c in
           if truthy (opt_name (function_call d)) then
             (Structured (''{"function_call": {"name": "'' @ template (opt_name (function_call d)) @
                          ''", "arguments": "''),
              st\<lparr>isFunctionStreamingIn := True\<rparr>)
           else if truthy (opt_name (opt_function (first_tool_call d))) then
             (case first_tool_call d of
                None \<Rightarrow> plain
              | Some toolCall \<Rightarrow>
                  (if tc_index toolCall = 0 then
                     Structured (''{"tool_calls":[ {"id": "'' @ template (tc_id toolCall) @
                                 ''", "type": "function", "function": {"name": "'' @
                                 template (opt_name (tc_function toolCall)) @ ''", "arguments": "'')
                   else
                     Structured (''"}}, {"id": "'' @ template (tc_id toolCall) @
                                 ''", "type": "function", "function": {"name": "'' @
                                 template (opt_name (tc_function toolCall)) @ ''", "arguments": "''),
                   st\<lparr>isFunctionStreamingIn := True\<rparr>))
           else if truthy (opt_arguments (function_call d)) then
             (Structured (cleanupArguments (template (opt_arguments (function_call d)))), st)
           else if truthy (opt_arguments (opt_function (first_tool_call d))) then
             (Structured (cleanupArguments (template (opt_arguments (opt_function (first_tool_call d))))), st)
           else if isFunctionStreamingIn st \<and>
                   (finish_reason c = Some ''function_call'' \<or> finish_reason c = Some ''stop'') then
             (Structured ''"}}'', st\<lparr>isFunctionStreamingIn := False\<rparr>)
           else if isFunctionStreamingIn st \<and> finish_reason c = Some ''tool_calls'' then
             (Structured ''"}}]}'', st\<lparr>isFunctionStreamingIn := False\<rparr>)
           else plain)
      | _ \<Rightarrow> plain)\<close>

text \<open>
  \<open>streamable\<close>: the extractor over the chunks of an async iterable, yielding the
  truthy results. A chunk of the Azure client is converted to a
  \<open>ChatCompletionChunk\<close> before extraction; the list holds the converted chunks.
\<close>

fun message_truthy :: "message \<Rightarrow> bool" where
  "message_truthy (Text s) = (s \<noteq> [])"
| "message_truthy (Structured s) = True"

fun streamable_from :: "extract_state \<Rightarrow> chunk list \<Rightarrow> message list" where
  "streamable_from st [] = []"
| "streamable_from st (c # cs) =
     (let (m, st') = chunkToText st c
      in (if message_truthy m then [m] else []) @ streamable_from st' cs)"

definition streamable :: "chunk list \<Rightarrow> message list" where
  "streamable stream = streamable_from chunkToText_init stream"


section \<open>Streams\<close>

text \<open>
  A readable stream is the list of chunks it delivers and the way it ends: it
  closes, it errors, or it stays open without ever delivering anything more.
  Bytes are represented by the text they encode. A stream that errors is taken to
  have delivered what was enqueued before the error.
\<close>

datatype error = SyntaxError | TypeError | Error string | Thrown

datatype ending = Closed | Errored error | Pending

datatype 'a readable = Readable (chunks: "'a list") (ending: ending)

text \<open>
  The hooks and handlers are user code. A hook is represented by whether it is
  configured, and each invocation is recorded, with its argument, in a trace; so are
  the console calls. A hook is assumed to return normally.
\<close>

datatype event =
    OnStart
  | OnToken string
  | OnText string
  | OnCompletion string
  | OnFinal string
  | OnFunctionCall "json option" json
  | OnToolCall "(json option \<times> json option \<times> json option) list"
  | Console_warn
  | Console_error

record response =
  ok :: bool
  body :: "string list option"

datatype res = AsyncIterable "chunk list" | Resp response

text \<open>
  A function or tool handler is represented by the results of its successive
  invocations: it throws, or it returns nothing, a string, or a new response to
  stream. After the last listed result it returns nothing. The payload a handler is
  called with is recorded in the trace. The message list kept under the hidden
  symbol key only reaches the handlers, through the closure they are given, and
  the next recursive call; it reaches neither the output nor the hooks and is
  left out.
\<close>

datatype response_value = Undefined | Str string | Streamable res

datatype handler_result = Throws | Returns response_value

type_synonym handler = "handler_result list"

record callbacks =
  onStart :: bool
  onCompletion :: bool
  onFinal :: bool
  onToken :: bool
  onText :: bool
  experimental_streamData :: bool
  experimental_onFunctionCall :: "handler option"
  experimental_onToolCall :: "handler option"

text \<open>An event of the server-sent-event parser.\<close>

datatype parsed_event =
    ParsedEvent (event_name: "string option") (event_data: string)
  | ReconnectInterval

text \<open>
  The functions imported from modules that are not among the sources: the event
  parser of \<open>eventsource-parser\<close> (the events it reports for the text fed to it),
  the view of a parsed JSON value as a provider chunk (a type cast in the source),
  \<open>formatStreamPart\<close> of \<open>../shared/stream-parts\<close> and \<open>createStreamDataTransformer\<close>
  of \<open>./stream-data\<close>. They are parameters of the model.
\<close>

record env =
  createParser :: "string list \<Rightarrow> parsed_event list"
  as_chunk :: "json \<Rightarrow> chunk"
  formatStreamPart :: "string \<Rightarrow> json \<Rightarrow> string"
  createStreamDataTransformer :: "bool \<Rightarrow> string readable \<Rightarrow> string readable"

section \<open>The generic stream (\<open>ai-stream.ts\<close>)\<close>

text \<open>
  The file holds two revisions of several declarations; the model follows the later
  one, which is the one the OpenAI stream module imports.

  A custom parser is a function of the event data and the event name that may keep
  state between calls and may throw: it takes its state and returns the new one.
\<close>

type_synonym 's parser = "'s \<Rightarrow> string \<Rightarrow> string option \<Rightarrow> error + (message option \<times> 's)"

text \<open>
  The callback given to the event parser, over the events in order: it terminates
  the stream at a \<open>[DONE]\<close> event or a \<open>done\<close> event name, and enqueues every truthy
  parsed message. Without a custom parser the message is the event data.
\<close>

fun enqueue_truthy :: "message option \<Rightarrow> message list" where
  "enqueue_truthy None = []"
| "enqueue_truthy (Some m) = (if message_truthy m then [m] else [])"

fun on_events :: "'s parser option \<Rightarrow> 's \<Rightarrow> parsed_event list \<Rightarrow> message list \<times> ending option" where
  "on_events customParser st [] = ([], None)"
| "on_events customParser st (ReconnectInterval # es) = on_events customParser st es"
| "on_events customParser st (ParsedEvent ev d # es) =
     (if d = ''[DONE]'' \<or> ev = Some ''done'' then ([], Some Closed)
      else
        (case customParser of
           None \<Rightarrow>
             (let (ms, e) = on_events customParser st es
              in ((if d \<noteq> [] then [Text d] else []) @ ms, e))
         | Some parse \<Rightarrow>
             (case parse st d ev of
                Inl err \<Rightarrow> ([], Some (Errored err))
              | Inr (parsedMessage, st') \<Rightarrow>
                  (let (ms, e) = on_events customParser st' es
                   in (enqueue_truthy parsedMessage @ ms, e)))))"

definition createEventStreamTransformer ::
  "env \<Rightarrow> 's parser option \<Rightarrow> 's \<Rightarrow> string readable \<Rightarrow> message readable" where
  "createEventStreamTransformer E customParser st src =
     (let (ms, e) = on_events customParser st (createParser E (chunks src))
      in Readable ms (case e of None \<Rightarrow> ending src | Some e' \<Rightarrow> e'))"

text \<open>
  \<open>isOfTypeOpenAIStreamCallbacks\<close> tests whether the key
  \<open>experimental_onFunctionCall\<close> is in the object; the key is taken to be present
  exactly when the handler is defined.
\<close>

definition isOfTypeOpenAIStreamCallbacks :: "callbacks \<Rightarrow> bool" where
  "isOfTypeOpenAIStreamCallbacks cb \<longleftrightarrow> experimental_onFunctionCall cb \<noteq> None"

text \<open>\<open>createCallbacksTransformer\<close>: the events of one \<open>transform\<close> call, and of \<open>flush\<close>.\<close>

definition callbacks_transform :: "callbacks \<Rightarrow> message \<Rightarrow> event list" where
  "callbacks_transform cb m =
     (if onToken cb then [OnToken (message_content m)] else []) @
     (case m of Text s \<Rightarrow> if onText cb then [OnText s] else [] | Structured s \<Rightarrow> [])"

definition callbacks_flush :: "callbacks \<Rightarrow> string \<Rightarrow> event list" where
  "callbacks_flush cb aggregatedResponse =
     (if onCompletion cb then [OnCompletion aggregatedResponse] else []) @
     (if onFinal cb \<and> \<not> isOfTypeOpenAIStreamCallbacks cb then [OnFinal aggregatedResponse] else [])"

text \<open>
  The transformer over a whole source: \<open>start\<close> runs when it is built, \<open>transform\<close>
  enqueues the content of every message, and \<open>flush\<close> runs only when the source
  closes; an error of the source passes through.
\<close>

definition createCallbacksTransformer ::
  "callbacks \<Rightarrow> message readable \<Rightarrow> event list \<times> string readable" where
  "createCallbacksTransformer cb src =
     ((if onStart cb then [OnStart] else []) @
      concat (map (callbacks_transform cb) (chunks src)) @
      (if ending src = Closed
       then callbacks_flush cb (concat (map message_content (chunks src))) else []),
      Readable (map message_content (chunks src)) (ending src))"

text \<open>
  \<open>AIStream\<close>. For a response that is not OK the stream errors with the text of the
  first body chunk, read once; when the read reports the end of the body the
  \<open>start\<close> function returns without erroring or closing the stream. No transformer,
  and so no hook, is set up on this path.
\<close>

definition createEmptyReadableStream :: "string readable" where
  "createEmptyReadableStream = Readable [] Closed"

definition AIStream ::
  "env \<Rightarrow> response \<Rightarrow> 's parser option \<Rightarrow> 's \<Rightarrow> callbacks \<Rightarrow> event list \<times> string readable" where
  "AIStream E response customParser st cb =
     (if \<not> ok response then
        (case body response of
           Some bs \<Rightarrow>
             (case bs of
                [] \<Rightarrow> ([], Readable [] Pending)
              | v # vs \<Rightarrow> ([], Readable [] (Errored (Error (''Response error: '' @ v)))))
         | None \<Rightarrow> ([], Readable [] (Errored (Error ''Response error: No response body''))))
      else
        (let responseBodyStream =
               (case body response of Some bs \<Rightarrow> Readable bs Closed | None \<Rightarrow> createEmptyReadableStream)
         in createCallbacksTransformer cb
              (createEventStreamTransformer E customParser st responseBodyStream)))"


section \<open>The OpenAI stream and its function-call transformer\<close>

text \<open>
  \<open>parseOpenAIStream\<close>: the extractor applied to the parsed event data. A parse
  failure is thrown.
\<close>

definition parseOpenAIStream :: "env \<Rightarrow> extract_state parser" where
  "parseOpenAIStream E st d ev =
     (case JSON_parse d of
        None \<Rightarrow> Inl SyntaxError
      | Some j \<Rightarrow> (let (m, st') = chunkToText st (as_chunk E j) in Inr (Some m, st')))"

subsection \<open>Reading the parsed payload\<close>

text \<open>
  The payload of a call is whatever \<open>JSON.parse\<close> returns for the aggregated text, so
  it is read the way the platform reads an untyped value. \<open>None\<close> is \<open>undefined\<close>.
  Reading a property of \<open>undefined\<close> or \<open>null\<close> throws a \<open>TypeError\<close>; a value that is
  not an object has none of the properties read here.
\<close>

fun get_prop :: "json option \<Rightarrow> string \<Rightarrow> error + json option" where
  "get_prop None k = Inl TypeError"
| "get_prop (Some JNull) k = Inl TypeError"
| "get_prop (Some (JObj ms)) k = Inr (map_of ms k)"
| "get_prop (Some v) k = Inr None"

text \<open>The conversion to a string that \<open>JSON.parse\<close> applies to a non-string argument.\<close>

fun ToString :: "json \<Rightarrow> string" where
  "ToString JNull = ''null''"
| "ToString (JBool b) = (if b then ''true'' else ''false'')"
| "ToString (JNum n) = n"
| "ToString (JStr s) = s"
| "ToString (JArr vs) = join '','' (map (\<lambda>v. if v = JNull then [] else ToString v) vs)"
| "ToString (JObj ms) = ''[object Object]''"

fun JSON_parse_value :: "json option \<Rightarrow> json option" where
  "JSON_parse_value None = None"
| "JSON_parse_value (Some v) = JSON_parse (ToString v)"

text \<open>\<open>for (const tool of x)\<close>: an array or a string is iterable, nothing else here is.\<close>

fun iterate :: "json option \<Rightarrow> error + json list" where
  "iterate (Some (JArr vs)) = Inr vs"
| "iterate (Some (JStr s)) = Inr (map (\<lambda>c. JStr [c]) s)"
| "iterate v = Inl TypeError"

definition is_zero :: "string \<Rightarrow> bool" where
  "is_zero n \<longleftrightarrow>
     list_all (\<lambda>c. c \<in> set ''0.-'') (takeWhile (\<lambda>c. c \<noteq> CHR ''e'' \<and> c \<noteq> CHR ''E'') n)"

fun js_truthy :: "json option \<Rightarrow> bool" where
  "js_truthy None = False"
| "js_truthy (Some JNull) = False"
| "js_truthy (Some (JBool b)) = b"
| "js_truthy (Some (JNum n)) = (\<not> is_zero n)"
| "js_truthy (Some (JStr s)) = (s \<noteq> [])"
| "js_truthy (Some v) = True"

text \<open>One entry of the tool-call payload: \<open>tool.id\<close>, \<open>tool.function.name\<close>, \<open>tool.function.arguments\<close>.\<close>

definition tool_of :: "json \<Rightarrow> error + (json option \<times> json option \<times> json option)" where
  "tool_of tool =
     (case get_prop (Some tool) ''id'' of
        Inl e \<Rightarrow> Inl e
      | Inr i \<Rightarrow>
          (case get_prop (Some tool) ''function'' of
             Inl e \<Rightarrow> Inl e
           | Inr f \<Rightarrow>
               (case get_prop f ''name'' of
                  Inl e \<Rightarrow> Inl e
                | Inr n \<Rightarrow>
                    (case get_prop f ''arguments'' of
                       Inl e \<Rightarrow> Inl e
                     | Inr a \<Rightarrow> Inr (i, n, a)))))"

fun tools_of :: "json list \<Rightarrow> error + (json option \<times> json option \<times> json option) list" where
  "tools_of [] = Inr []"
| "tools_of (t # ts) =
     (case tool_of t of
        Inl e \<Rightarrow> Inl e
      | Inr x \<Rightarrow> (case tools_of ts of Inl e \<Rightarrow> Inl e | Inr xs \<Rightarrow> Inr (x # xs)))"

subsection \<open>The transformer\<close>

record fc_state =
  isFirstChunk :: bool
  aggregatedResponse :: string
  aggregatedFinalCompletionResponse :: string
  isFunctionStreamingIn_t :: bool

definition fc_init :: fc_state where
  "fc_init = \<lparr>isFirstChunk = True, aggregatedResponse = [],
              aggregatedFinalCompletionResponse = [], isFunctionStreamingIn_t = False\<rparr>"

text \<open>\<open>decode\<close> is the simple chunk decoder.\<close>

definition decode :: "string \<Rightarrow> string" where
  "decode chunk = (case createChunkDecoder False (Some chunk) of Inl m \<Rightarrow> m | Inr ps \<Rightarrow> [])"

text \<open>\<open>transform\<close>: the new state and what is enqueued.\<close>

definition transform :: "env \<Rightarrow> callbacks \<Rightarrow> fc_state \<Rightarrow> string \<Rightarrow> fc_state \<times> string list" where
  \<open>transform E cb st chunk =
     (let message = decode chunk;
          st1 = st\<lparr>aggregatedFinalCompletionResponse := aggregatedFinalCompletionResponse st @ message\<rparr>;
          shouldHandleAsFunction =
            (isFirstChunk st \<and>
             (prefix ''{"function_call":'' message \<or> prefix ''{"tool_calls":'' message))
      in if shouldHandleAsFunction then
           (st1\<lparr>isFunctionStreamingIn_t := True,
                aggregatedResponse := aggregatedResponse st @ message,
                isFirstChunk := False\<rparr>, [])
         else if \<not> isFunctionStreamingIn_t st then
           (st1, [if experimental_streamData cb then formatStreamPart E ''text'' (JStr message) else chunk])
         else
           (st1\<lparr>aggregatedResponse := aggregatedResponse st @ message\<rparr>, []))\<close>

fun transform_all :: "env \<Rightarrow> callbacks \<Rightarrow> fc_state \<Rightarrow> string list \<Rightarrow> fc_state \<times> string list" where
  "transform_all E cb st [] = (st, [])"
| "transform_all E cb st (c # cs) =
     (let (st', out) = transform E cb st c;
          (st'', outs) = transform_all E cb st' cs
      in (st'', out @ outs))"

text \<open>One invocation of a handler: its result, and the handler as it is afterwards.\<close>

fun invoke :: "handler \<Rightarrow> handler_result \<times> handler" where
  "invoke [] = (Returns Undefined, [])"
| "invoke (r # rs) = (r, rs)"

text \<open>
  The block that calls \<open>experimental_onFunctionCall\<close>. It yields the events so far
  with the error thrown, or the events, the function response and the callbacks.
  The handler's exception is not caught here.
\<close>

definition call_onFunctionCall ::
  "callbacks \<Rightarrow> json \<Rightarrow> (event list \<times> error) + (event list \<times> response_value \<times> callbacks)" where
  "call_onFunctionCall cb payload =
     (case experimental_onFunctionCall cb of
        None \<Rightarrow> Inr ([], Undefined, cb)
      | Some h \<Rightarrow>
          (case get_prop (Some payload) ''function_call'' of
             Inl e \<Rightarrow> Inl ([], e)
           | Inr fcall \<Rightarrow>
               (let warn = (if fcall = None then [Console_warn] else []) in
                case get_prop fcall ''arguments'' of
                  Inl e \<Rightarrow> Inl (warn, e)
                | Inr args \<Rightarrow>
                    (case JSON_parse_value args of
                       None \<Rightarrow> Inl (warn, SyntaxError)
                     | Some argumentsPayload \<Rightarrow>
                         (case get_prop fcall ''name'' of
                            Inl e \<Rightarrow> Inl (warn, e)
                          | Inr nm \<Rightarrow>
                              (case invoke h of
                                 (Throws, h') \<Rightarrow> Inl (warn @ [OnFunctionCall nm argumentsPayload], Thrown)
                               | (Returns v, h') \<Rightarrow>
                                   Inr (warn @ [OnFunctionCall nm argumentsPayload], v,
                                        cb\<lparr>experimental_onFunctionCall := Some h'\<rparr>)))))))"

text \<open>
  The block that calls \<open>experimental_onToolCall\<close>, given the function response so
  far. An exception of the handler is caught and logged, and the response is left
  as it was.
\<close>

definition call_onToolCall ::
  "callbacks \<Rightarrow> json \<Rightarrow> response_value \<Rightarrow>
     (event list \<times> error) + (event list \<times> response_value \<times> callbacks)" where
  "call_onToolCall cb payload functionResponse =
     (case experimental_onToolCall cb of
        None \<Rightarrow> Inr ([], functionResponse, cb)
      | Some h \<Rightarrow>
          (case get_prop (Some payload) ''tool_calls'' of
             Inl e \<Rightarrow> Inl ([], e)
           | Inr tcs \<Rightarrow>
               (case iterate tcs of
                  Inl e \<Rightarrow> Inl ([], e)
                | Inr ts \<Rightarrow>
                    (case tools_of ts of
                       Inl e \<Rightarrow> Inl ([], e)
                     | Inr tools \<Rightarrow>
                         (case invoke h of
                            (Throws, h') \<Rightarrow>
                              Inr ([OnToolCall tools, Console_error], functionResponse,
                                   cb\<lparr>experimental_onToolCall := Some h'\<rparr>)
                          | (Returns v, h') \<Rightarrow>
                              Inr ([OnToolCall tools], v, cb\<lparr>experimental_onToolCall := Some h'\<rparr>))))))"

text \<open>
  The \<open>try\<close> block of \<open>flush\<close> up to the recursive call: it returns, with what it
  enqueued and the final completion text; or it throws; or it goes on to stream the
  handler's response with the filtered callbacks.
\<close>

datatype flushed =
    Returned "event list" "string list" string
  | Threw "event list" error
  | Recursive "event list" res callbacks

fun falsy :: "response_value \<Rightarrow> bool" where
  "falsy Undefined = True"
| "falsy (Str s) = (s = [])"
| "falsy (Streamable r) = False"

definition respond :: "env \<Rightarrow> callbacks \<Rightarrow> fc_state \<Rightarrow> json \<Rightarrow> event list \<Rightarrow> response_value \<Rightarrow> callbacks \<Rightarrow> flushed" where
  "respond E cb st payload evs functionResponse cb' =
     (if falsy functionResponse then
        Returned evs
          [if experimental_streamData cb then
             formatStreamPart E
               (case get_prop (Some payload) ''function_call'' of
                  Inr fcall \<Rightarrow> if js_truthy fcall then ''function_call'' else ''tool_calls''
                | Inl e \<Rightarrow> ''tool_calls'')
               payload
           else aggregatedResponse st]
          (aggregatedFinalCompletionResponse st)
      else
        (case functionResponse of
           Str s \<Rightarrow>
             Returned evs [if experimental_streamData cb then formatStreamPart E ''text'' (JStr s) else s] s
         | Streamable r \<Rightarrow> Recursive evs r (cb'\<lparr>onStart := False\<rparr>)
         | Undefined \<Rightarrow> Returned evs [] (aggregatedFinalCompletionResponse st)))"

definition flush_try :: "env \<Rightarrow> callbacks \<Rightarrow> fc_state \<Rightarrow> flushed" where
  "flush_try E cb st =
     (if \<not> isFirstChunk st \<and> isFunctionStreamingIn_t st \<and>
         (experimental_onFunctionCall cb \<noteq> None \<or> experimental_onToolCall cb \<noteq> None) then
        (case JSON_parse (aggregatedResponse st) of
           None \<Rightarrow> Threw [] SyntaxError
         | Some payload \<Rightarrow>
             (case call_onFunctionCall cb payload of
                Inl (evs, e) \<Rightarrow> Threw evs e
              | Inr (evs1, r1, cb1) \<Rightarrow>
                  (case call_onToolCall cb1 payload r1 of
                     Inl (evs2, e) \<Rightarrow> Threw (evs1 @ evs2) e
                   | Inr (evs2, r2, cb2) \<Rightarrow> respond E cb st payload (evs1 @ evs2) r2 cb2)))
      else Returned [] [] (aggregatedFinalCompletionResponse st))"

text \<open>The \<open>finally\<close> block, with the callbacks as they are when it runs.\<close>

definition flush_finally :: "callbacks \<Rightarrow> string \<Rightarrow> event list" where
  "flush_finally cb final = (if onFinal cb \<and> final \<noteq> [] then [OnFinal final] else [])"

definition handlers_configured :: "callbacks \<Rightarrow> bool" where
  "handlers_configured cb \<longleftrightarrow>
     experimental_onFunctionCall cb \<noteq> None \<or> experimental_onToolCall cb \<noteq> None"

text \<open>The first stage of \<open>OpenAIStream\<close>: extraction and the callbacks transformer.\<close>

definition first_stage :: "env \<Rightarrow> res \<Rightarrow> callbacks \<Rightarrow> event list \<times> string readable" where
  "first_stage E res cb =
     (let cb1 = (if handlers_configured cb then cb\<lparr>onFinal := False\<rparr> else cb)
      in case res of
           AsyncIterable it \<Rightarrow> createCallbacksTransformer cb1 (Readable (streamable it) Closed)
         | Resp r \<Rightarrow> AIStream E r (Some (parseOpenAIStream E)) chunkToText_init cb1)"

text \<open>The number of results the configured handlers still list.\<close>

definition remaining :: "callbacks \<Rightarrow> nat" where
  "remaining cb =
     (case experimental_onFunctionCall cb of None \<Rightarrow> 0 | Some h \<Rightarrow> length h) +
     (case experimental_onToolCall cb of None \<Rightarrow> 0 | Some h \<Rightarrow> length h)"

text \<open>
  \<open>OpenAIStream\<close>, with the function-call transformer piped behind the first stage
  when a handler is configured. The recursive call is the one \<open>flush\<close> makes; its
  chunks are relayed, and its error or its never ending is the outer stream's. By
  then \<open>onFinal\<close> has been removed from the outer callbacks, so the outer \<open>finally\<close>
  block calls nothing.
\<close>

function OpenAIStream :: "env \<Rightarrow> res \<Rightarrow> callbacks \<Rightarrow> event list \<times> string readable" where
  "OpenAIStream E res cb =
     (let (evs, stream) = first_stage E res cb in
      if handlers_configured cb then
        (let (st, outs) = transform_all E cb fc_init (chunks stream) in
         if ending stream \<noteq> Closed then (evs, Readable outs (ending stream))
         else
           (case flush_try E cb st of
              Returned evs2 enqueued final \<Rightarrow>
                (evs @ evs2 @ flush_finally cb final, Readable (outs @ enqueued) Closed)
            | Threw evs2 err \<Rightarrow>
                (evs @ evs2 @ flush_finally cb (aggregatedFinalCompletionResponse st),
                 Readable outs (Errored err))
            | Recursive evs2 res' cb' \<Rightarrow>
                (let (evs3, inner) = OpenAIStream E res' cb'
                 in (evs @ evs2 @ evs3, Readable (outs @ chunks inner) (ending inner)))))
      else (evs, createStreamDataTransformer E (experimental_streamData cb) stream))"
  by pat_completeness auto
termination
proof -
  have inv: "length h' \<le> length h" if "invoke h = (x, h')" for h h' x
    using that by (cases h) auto
  have inv_stream: "length h' < length h" if "invoke h = (Returns (Streamable r), h')" for h h' r
    using that by (cases h) auto
  have dec: "remaining cb' < remaining cb" if "flush_try E cb st = Recursive evs r cb'" for E cb st evs r cb'
  proof -
    from that obtain payload evs1 r1 cb1 evs2 cb2 where
      f: "call_onFunctionCall cb payload = Inr (evs1, r1, cb1)" and
      t: "call_onToolCall cb1 payload r1 = Inr (evs2, Streamable r, cb2)" and
      c: "cb' = cb2\<lparr>onStart := False\<rparr>"
      by (auto simp: flush_try_def respond_def
          split: if_splits option.splits sum.splits prod.splits response_value.splits)
    from f have f1: "remaining cb1 \<le> remaining cb"
      by (auto simp: call_onFunctionCall_def remaining_def Let_def
          split: option.splits sum.splits prod.splits handler_result.splits if_splits
          dest: inv)
    from f have f2: "remaining cb1 < remaining cb" if "r1 = Streamable r"
      using that
      by (auto simp: call_onFunctionCall_def remaining_def Let_def
          split: option.splits sum.splits prod.splits handler_result.splits if_splits
          dest: inv_stream)
    from t have "remaining cb2 < remaining cb1 \<or> (remaining cb2 \<le> remaining cb1 \<and> r1 = Streamable r)"
      by (auto simp: call_onToolCall_def remaining_def Let_def
          split: option.splits sum.splits prod.splits handler_result.splits if_splits
          dest: inv inv_stream)
    with f1 f2 c show ?thesis
      by (auto simp: remaining_def)
  qed
  show ?thesis
  proof (relation "measure (\<lambda>(E, res, cb). remaining cb)")
    show "wf (measure (\<lambda>(E, res, cb). remaining cb))" by simp
  qed (auto dest: dec)
qed

declare OpenAIStream.simps [simp del]


section \<open>Legs of a round, and what the trace records\<close>






fun starts :: "event list \<Rightarrow> nat" where
  "starts [] = 0"
| "starts (OnStart # es) = Suc (starts es)"
| "starts (e # es) = starts es"

fun finals :: "event list \<Rightarrow> string list" where
  "finals [] = []"
| "finals (OnFinal s # es) = s # finals es"
| "finals (e # es) = finals es"

fun completions :: "event list \<Rightarrow> string list" where
  "completions [] = []"
| "completions (OnCompletion s # es) = s # completions es"
| "completions (e # es) = completions es"

fun tokens :: "event list \<Rightarrow> string list" where
  "tokens [] = []"
| "tokens (OnToken s # es) = s # tokens es"
| "tokens (e # es) = tokens es"

fun texts :: "event list \<Rightarrow> string list" where
  "texts [] = []"
| "texts (OnText s # es) = s # texts es"
| "texts (e # es) = texts es"

fun text_messages :: "message list \<Rightarrow> string list" where
  "text_messages [] = []"
| "text_messages (Text s # ms) = s # text_messages ms"
| "text_messages (Structured s # ms) = text_messages ms"

text \<open>What the function-call transformer of a leg forwards before \<open>flush\<close>.\<close>

definition forwarded :: "env \<Rightarrow> res \<Rightarrow> callbacks \<Rightarrow> string list" where
  "forwarded E res cb = snd (transform_all E cb fc_init (chunks (snd (first_stage E res cb))))"



text \<open>
  The test \<open>transform\<close> applies to a message while no call has started, and what it
  enqueues for a message it forwards.
\<close>

definition opens_call :: "string \<Rightarrow> bool" where
  \<open>opens_call message \<longleftrightarrow>
     prefix ''{"function_call":'' message \<or> prefix ''{"tool_calls":'' message\<close>

definition forward :: "env \<Rightarrow> callbacks \<Rightarrow> string \<Rightarrow> string" where
  "forward E cb chunk =
     (if experimental_streamData cb then formatStreamPart E ''text'' (JStr chunk) else chunk)"


section \<open>Provider chunks and callbacks used in the examples\<close>

definition delta_chunk :: "ChoiceDelta \<Rightarrow> string option \<Rightarrow> chunk" where
  "delta_chunk d fr = ChatCompletionChunk [\<lparr>delta = d, finish_reason = fr\<rparr>]"

definition no_delta :: ChoiceDelta where
  "no_delta = \<lparr>content = None, function_call = None, tool_calls = None\<rparr>"

text \<open>A delta that introduces the function name, with empty arguments.\<close>

definition name_delta :: "string \<Rightarrow> chunk" where
  "name_delta f =
     delta_chunk (no_delta\<lparr>function_call := Some \<lparr>arguments = Some [], name = Some f\<rparr>\<rparr>) None"

definition arguments_delta :: "string \<Rightarrow> chunk" where
  "arguments_delta a =
     delta_chunk (no_delta\<lparr>function_call := Some \<lparr>arguments = Some a, name = None\<rparr>\<rparr>) None"

definition content_delta :: "string \<Rightarrow> chunk" where
  "content_delta t = delta_chunk (no_delta\<lparr>content := Some t\<rparr>) None"

definition finish :: "string \<Rightarrow> chunk" where
  "finish fr = delta_chunk no_delta (Some fr)"

text \<open>A delta that opens the tool call with the given index, id and name.\<close>

definition tool_open :: "nat \<Rightarrow> string \<Rightarrow> string \<Rightarrow> chunk" where
  "tool_open i tid f =
     delta_chunk
       (no_delta\<lparr>tool_calls :=
          Some [\<lparr>tc_index = i, tc_id = Some tid,
                 tc_function = Some \<lparr>arguments = Some [], name = Some f\<rparr>\<rparr>]\<rparr>) None"

definition tool_arguments :: "nat \<Rightarrow> string \<Rightarrow> chunk" where
  "tool_arguments i a =
     delta_chunk
       (no_delta\<lparr>tool_calls :=
          Some [\<lparr>tc_index = i, tc_id = None,
                 tc_function = Some \<lparr>arguments = Some a, name = None\<rparr>\<rparr>]\<rparr>) None"

text \<open>The fragments of the function call \<open>f({"a":1})\<close>, as the provider streams them.\<close>

definition function_call_round :: "chunk list" where
  \<open>function_call_round =
     [name_delta ''f'', arguments_delta ''{"a":1'', arguments_delta ''}'', finish ''function_call'']\<close>

text \<open>
  An environment for runs that reach none of the imported functions: the source is
  an async iterable, a handler is configured and \<open>experimental_streamData\<close> is off.
\<close>

definition unused_imports :: env where
  "unused_imports =
     \<lparr>createParser = (\<lambda>bs. []), as_chunk = (\<lambda>j. Completion []),
      formatStreamPart = (\<lambda>t v. []), createStreamDataTransformer = (\<lambda>b s. s)\<rparr>"

text \<open>All hooks configured, no handler, plain text output.\<close>

definition all_hooks :: callbacks where
  "all_hooks =
     \<lparr>onStart = True, onCompletion = True, onFinal = True, onToken = True, onText = True,
      experimental_streamData = False,
      experimental_onFunctionCall = None, experimental_onToolCall = None\<rparr>"


text \<open>One tool call \<open>g({})\<close>, a round without text, and a plain answer.\<close>

definition tool_call_round :: "chunk list" where
  "tool_call_round = [tool_open 0 ''call_1'' ''g'', tool_arguments 0 ''{}'', finish ''tool_calls'']"



definition with_function_handler :: "handler \<Rightarrow> callbacks" where
  "with_function_handler h = all_hooks\<lparr>experimental_onFunctionCall := Some h\<rparr>"

definition with_tool_handler :: "handler \<Rightarrow> callbacks" where
  "with_tool_handler h = all_hooks\<lparr>experimental_onToolCall := Some h\<rparr>"

section \<open>Characters and the escaping of arguments\<close>

text \<open>The net effect of \<open>cleanupArguments\<close> on one character.\<close>

definition esc_char :: "char \<Rightarrow> string" where
  "esc_char c =
     (if c = backslash then [backslash, backslash]
      else if c = CHR ''/'' then [backslash, CHR ''/'']
      else if c = quote then [backslash, quote]
      else if c = newline then [backslash, CHR ''n'']
      else if c = carriage_return then [backslash, CHR ''r'']
      else if c = tab then [backslash, CHR ''t'']
      else if c = formfeed then [backslash, CHR ''f'']
      else [c])"

text \<open>
  A character that \<open>cleanupArguments\<close> leaves fit for a string literal: it is no
  control character, or it is one of the four control characters that are escaped.
\<close>

definition escapable :: "char \<Rightarrow> bool" where
  "escapable c \<longleftrightarrow>
     (if is_control c then c = newline \<or> c = carriage_return \<or> c = tab \<or> c = formfeed else True)"

text \<open>A character that can stand in a string literal as it is.\<close>

definition plain :: "char \<Rightarrow> bool" where
  "plain c \<longleftrightarrow> (if is_control c then False else c \<noteq> quote \<and> c \<noteq> backslash)"

text \<open>One tool call of the aggregated payload, as a value and as the fragments spell it.\<close>

definition tool_object :: "string \<Rightarrow> string \<Rightarrow> string \<Rightarrow> json" where
  "tool_object tid f a =
     JObj [(''id'', JStr tid), (''type'', JStr ''function''),
           (''function'', JObj [(''name'', JStr f), (''arguments'', JStr a)])]"

definition tool_object_text :: "string \<Rightarrow> string \<Rightarrow> string \<Rightarrow> string" where
  \<open>tool_object_text tid f a =
     ''{"id": "'' @ tid @ ''", "type": "function", "function": {"name": "'' @ f @
     ''", "arguments": "'' @ cleanupArguments a @ ''"}}''\<close>

section \<open>The bound of the parser\<close>

text \<open>
  The parser consumes a token in every call, and fuel beyond the number of tokens
  changes nothing: \<open>JSON_parse\<close> never fails for lack of fuel.
\<close>

lemma parse_shorter:
  "(parse_value n ts = Some (v, r) \<longrightarrow> length r < length ts) \<and>
   (parse_elements n vs ts = Some (v, r) \<longrightarrow> length r < length ts) \<and>
   (parse_members n ms ts = Some (v, r) \<longrightarrow> length r < length ts)"
proof (induction n arbitrary: ts v r vs ms)
  case 0
  then show ?case by simp
next
  case (Suc n)
  have ih1: "length r < length ts" if "parse_value n ts = Some (v, r)" for ts v r
    using Suc.IH that by blast
  have ih2: "length r < length ts" if "parse_elements n vs ts = Some (v, r)" for ts v r vs
    using Suc.IH that by blast
  have ih3: "length r < length ts" if "parse_members n ms ts = Some (v, r)" for ts v r ms
    using Suc.IH that by blast
  have g1: "parse_value (Suc n) ts = Some (v, r) \<longrightarrow> length r < length ts"
    by (fastforce split: list.splits token.splits option.splits dest: ih1 ih2 ih3)
  have g2: "parse_elements (Suc n) vs ts = Some (v, r) \<longrightarrow> length r < length ts"
    by (fastforce split: list.splits token.splits option.splits dest: ih1 ih2 ih3)
  have g3: "parse_members (Suc n) ms ts = Some (v, r) \<longrightarrow> length r < length ts"
    by (fastforce split: list.splits token.splits option.splits dest: ih1 ih2 ih3)
  show ?case using g1 g2 g3 by blast
qed


lemma parse_fuel_step:
  "length ts \<le> n \<Longrightarrow>
   parse_value (Suc n) ts = parse_value n ts \<and>
   parse_elements (Suc n) vs ts = parse_elements n vs ts \<and>
   parse_members (Suc n) ms ts = parse_members n ms ts"
proof (induction n arbitrary: ts vs ms)
  case 0
  then show ?case by simp
next
  case (Suc n)
  have ih1: "parse_value (Suc n) ts = parse_value n ts" if "length ts \<le> n" for ts
    using Suc.IH that by blast
  have ih2: "parse_elements (Suc n) vs ts = parse_elements n vs ts" if "length ts \<le> n" for ts vs
    using Suc.IH that by blast
  have ih3: "parse_members (Suc n) ms ts = parse_members n ms ts" if "length ts \<le> n" for ts ms
    using Suc.IH that by blast
  have sh: "length r \<le> n" if "parse_value n ts = Some (v, r)" "length ts \<le> Suc n" for ts v r
    using parse_shorter [THEN conjunct1, rule_format, OF that(1)] that(2) by simp
  have step_e:
    "(case parse_value (Suc n) r of None \<Rightarrow> None | Some (v, r') \<Rightarrow> parse_elements (Suc n) (f v) r') =
     (case parse_value n r of None \<Rightarrow> None | Some (v, r') \<Rightarrow> parse_elements n (f v) r')"
    if "length r \<le> n" for r and f :: "json \<Rightarrow> json list"
  proof (cases "parse_value n r")
    case None
    then show ?thesis using ih1 [OF that] by (simp del: parse_value.simps)
  next
    case (Some p)
    obtain v r' where p: "p = (v, r')" by (cases p)
    have "length r' \<le> n" using sh [of r v r'] Some p that by simp
    then show ?thesis
      using ih1 [OF that] ih2 [of r' "f v"] Some p
      by (simp del: parse_value.simps parse_elements.simps)
  qed
  have step_m:
    "(case parse_value (Suc n) r of None \<Rightarrow> None | Some (v, r') \<Rightarrow> parse_members (Suc n) (f v) r') =
     (case parse_value n r of None \<Rightarrow> None | Some (v, r') \<Rightarrow> parse_members n (f v) r')"
    if "length r \<le> n" for r and f :: "json \<Rightarrow> (string \<times> json) list"
  proof (cases "parse_value n r")
    case None
    then show ?thesis using ih1 [OF that] by (simp del: parse_value.simps)
  next
    case (Some p)
    obtain v r' where p: "p = (v, r')" by (cases p)
    have "length r' \<le> n" using sh [of r v r'] Some p that by simp
    then show ?thesis
      using ih1 [OF that] ih3 [of r' "f v"] Some p
      by (simp del: parse_value.simps parse_members.simps)
  qed
  note defs = parse_value.simps parse_elements.simps parse_members.simps
  have nil: "parse_value m [] = None" for m by (cases m) simp_all
  have g1: "parse_value (Suc (Suc n)) ts = parse_value (Suc n) ts"
  proof (cases ts)
    case Nil
    then show ?thesis by simp
  next
    case (Cons t r)
    then have lr: "length r \<le> n" using Suc.prems by simp
    note se = step_e [OF lr, where f = "\<lambda>v. [v]"]
    show ?thesis
    proof (cases t)
      case LBrace
      show ?thesis
      proof (cases r)
        case Nil
        then show ?thesis using Cons LBrace by simp
      next
        case r2: (Cons t2 r2)
        show ?thesis
        proof (cases t2)
          case (TStr k)
          show ?thesis
          proof (cases r2)
            case Nil
            then show ?thesis using Cons LBrace r2 TStr by simp
          next
            case r3: (Cons t3 r3)
            have "length r3 \<le> n" using lr r2 r3 by simp
            note sm = step_m [OF this, where f = "\<lambda>v. [(k, v)]"]
            show ?thesis
              unfolding parse_value.simps(2) [of "Suc n" ts] parse_value.simps(2) [of n ts]
              unfolding Cons LBrace r2 TStr r3
              using sm by (cases t3) (simp_all del: defs)
          qed
        qed (simp_all add: Cons LBrace r2)
      qed
    next
      case LBrack
      show ?thesis
      proof (cases r)
        case Nil
        then show ?thesis using Cons LBrack by (simp add: nil)
      next
        case r2: (Cons t2 r2)
        show ?thesis
          unfolding parse_value.simps(2) [of "Suc n" ts] parse_value.simps(2) [of n ts]
          unfolding Cons LBrack
          using se unfolding r2 by (cases t2) (simp_all del: defs)
      qed
    qed (simp_all add: Cons)
  qed
  have g2: "parse_elements (Suc (Suc n)) vs ts = parse_elements (Suc n) vs ts"
  proof (cases ts)
    case Nil
    then show ?thesis by simp
  next
    case (Cons t r)
    then have lr: "length r \<le> n" using Suc.prems by simp
    note se = step_e [OF lr, where f = "\<lambda>v. vs @ [v]"]
    show ?thesis
      unfolding parse_elements.simps(2) [of "Suc n" vs ts] parse_elements.simps(2) [of n vs ts]
      unfolding Cons
      using se by (cases t) (simp_all del: defs)
  qed
  have g3: "parse_members (Suc (Suc n)) ms ts = parse_members (Suc n) ms ts"
  proof (cases ts)
    case Nil
    then show ?thesis by simp
  next
    case (Cons t r)
    show ?thesis
    proof (cases t)
      case Comma
      show ?thesis
      proof (cases r)
        case Nil
        then show ?thesis using Cons Comma by simp
      next
        case r2: (Cons t2 r2)
        show ?thesis
        proof (cases t2)
          case (TStr k)
          show ?thesis
          proof (cases r2)
            case Nil
            then show ?thesis using Cons Comma r2 TStr by simp
          next
            case r3: (Cons t3 r3)
            have "length r3 \<le> n" using Suc.prems Cons r2 r3 by simp
            note sm = step_m [OF this, where f = "\<lambda>v. obj_put k v ms"]
            show ?thesis
              unfolding parse_members.simps(2) [of "Suc n" ms ts] parse_members.simps(2) [of n ms ts]
              unfolding Cons Comma r2 TStr r3
              using sm by (cases t3) (simp_all del: defs)
          qed
        qed (simp_all add: Cons Comma r2)
      qed
    qed (simp_all add: Cons)
  qed
  show ?case using g1 g2 g3 by blast
qed

lemma parse_fuel: "parse_value (length ts + k) ts = parse_value (length ts) ts"
proof (induction k)
  case 0
  then show ?case by simp
next
  case (Suc k)
  have "parse_value (Suc (length ts + k)) ts = parse_value (length ts + k) ts"
    by (rule parse_fuel_step [THEN conjunct1]) simp
  with Suc show ?case by (simp del: parse_value.simps)
qed


section \<open>The frame protocol: encode and decode\<close>


text \<open>
  The encoder writes a string verbatim and any other value as JSON, so two different
  values can share a wire line; no decoder can return both.
\<close>

lemma encode_not_injective:
  "getStreamString Key_text (JStr ''true'') = getStreamString Key_text (JBool True)"
  by (simp add: getStreamString_def)




section \<open>Fragments of a function call\<close>

text \<open>
  Claim C3: for the deltas \<open>{name: "f"}\<close>, the argument increments \<open>{"a":1\<close> and \<open>}\<close>,
  and a terminal chunk with finish reason \<open>function_call\<close>, the extractor emits four
  structured fragments whose concatenation parses as the JSON object
  \<open>{"function_call": {"name": "f", "arguments": "{\"a\":1}"}}\<close>; the function-call
  transformer aggregates exactly that concatenation.
\<close>

theorem function_call_fragments_parse:
  \<open>map message_content (streamable function_call_round) =
     [''{"function_call": {"name": "f", "arguments": "'',
      [CHR ''{'', backslash, quote, CHR ''a'', backslash, quote, CHR '':'', CHR ''1''],
      ''}'', ''"}}''] \<and>
   JSON_parse (concat (map message_content (streamable function_call_round))) =
     Some (JObj [(''function_call'',
                  JObj [(''name'', JStr ''f''), (''arguments'', JStr ''{"a":1}'')])]) \<and>
   aggregatedResponse
     (fst (transform_all E cb fc_init (map message_content (streamable function_call_round)))) =
     concat (map message_content (streamable function_call_round))\<close>
  by code_simp

section \<open>Escaping of argument increments\<close>

lemma replace_Nil: "replace c r [] = []"
  by (simp add: replace_def)

lemma replace_Cons: "replace c r (x # xs) = (if x = c then r else [x]) @ replace c r xs"
  by (simp add: replace_def)

lemma replace_append: "replace c r (xs @ ys) = replace c r xs @ replace c r ys"
  by (simp add: replace_def)

lemma cleanupArguments_Nil: "cleanupArguments [] = []"
  by (simp add: cleanupArguments_def replace_Nil)

lemma cleanupArguments_Cons: "cleanupArguments (c # s) = esc_char c @ cleanupArguments s"
  by (simp add: cleanupArguments_def esc_char_def replace_Cons replace_append replace_Nil)

lemma cleanupArguments_append:
  "cleanupArguments (xs @ ys) = cleanupArguments xs @ cleanupArguments ys"
  by (induction xs) (simp_all add: cleanupArguments_Nil cleanupArguments_Cons)

text \<open>Escaping the increments one by one is escaping their concatenation.\<close>

lemma cleanupArguments_concat: "concat (map cleanupArguments xss) = cleanupArguments (concat xss)"
  by (induction xss) (simp_all add: cleanupArguments_Nil cleanupArguments_append)

text \<open>
  For increments without other control characters the escaped text, closed by a
  quote, is read back as the original text.
\<close>

lemma escapable_iff:
  "escapable c \<longleftrightarrow>
     \<not> is_control c \<or> c = newline \<or> c = carriage_return \<or> c = tab \<or> c = formfeed"
  by (simp add: escapable_def)

lemma plain_iff: "plain c \<longleftrightarrow> \<not> is_control c \<and> c \<noteq> quote \<and> c \<noteq> backslash"
  by (simp add: plain_def)

lemma lex_string_escaped:
  "\<forall>c\<in>set s. escapable c \<Longrightarrow> lex_string (cleanupArguments s @ quote # rest) = Some (s, rest)"
proof (induction s)
  case Nil
  then show ?case by (simp add: cleanupArguments_Nil)
next
  case (Cons c s)
  then have ih: "lex_string (cleanupArguments s @ quote # rest) = Some (s, rest)"
    and e: "escapable c"
    by simp_all
  show ?case
    using ih e
    by (auto simp: cleanupArguments_Cons esc_char_def escapable_iff is_control_def)
qed

lemma lex_string_plain:
  "\<forall>c\<in>set s. plain c \<Longrightarrow> lex_string (s @ quote # rest) = Some (s, rest)"
  by (induction s) (simp_all add: plain_iff)


text \<open>
  Claim C5 says that the escaped increments are valid inside a JSON string literal
  for every increment. The escaping leaves a backspace (U+0008) as it is, and a
  string literal that contains it does not parse.
\<close>

theorem cleanupArguments_backspace:
  "cleanupArguments [backspace] = [backspace] \<and>
   JSON_parse (quote # concat (map cleanupArguments [[backspace]]) @ [quote]) = None"
  by code_simp

section \<open>A response that is not OK\<close>

text \<open>
  Claim C7 says that a response with a non-2xx status yields a stream with exactly
  one error event, which then terminates. When the body of such a response ends
  without delivering a chunk, the returned stream neither errors nor closes.
\<close>

theorem AIStream_error_empty_body:
  "AIStream E \<lparr>ok = False, body = Some []\<rparr> customParser st cb = ([], Readable [] Pending)"
  by (simp add: AIStream_def)


section \<open>Two tool calls in one round\<close>

lemmas fixture_defs = tool_open_def tool_arguments_def finish_def delta_chunk_def no_delta_def
  name_delta_def arguments_delta_def content_delta_def
  first_tool_call_def opt_name_def opt_arguments_def opt_function_def

lemma chunkToText_tool_open:
  \<open>f \<noteq> [] \<Longrightarrow> chunkToText st (tool_open i tid f) =
     (Structured ((if i = 0 then ''{"tool_calls":[ {"id": "'' else ''"}}, {"id": "'') @ tid @
                   ''", "type": "function", "function": {"name": "'' @ f @ ''", "arguments": "''),
      st\<lparr>isFunctionStreamingIn := True\<rparr>)\<close>
  by (simp add: chunkToText_def fixture_defs)

lemma chunkToText_tool_arguments:
  "a \<noteq> [] \<Longrightarrow> chunkToText st (tool_arguments i a) = (Structured (cleanupArguments a), st)"
  by (simp add: chunkToText_def fixture_defs)

lemma chunkToText_finish_tool_calls:
  \<open>isFunctionStreamingIn st \<Longrightarrow>
   chunkToText st (finish ''tool_calls'') =
     (Structured ''"}}]}'', st\<lparr>isFunctionStreamingIn := False\<rparr>)\<close>
  by (simp add: chunkToText_def fixture_defs)

lemma streamable_from_tool_arguments:
  "\<forall>a\<in>set as. a \<noteq> [] \<Longrightarrow>
   streamable_from st (map (tool_arguments i) as @ rest) =
     map (\<lambda>a. Structured (cleanupArguments a)) as @ streamable_from st rest"
  by (induction as) (simp_all add: chunkToText_tool_arguments)

lemma tokenize_tool_object:
  assumes "\<forall>c\<in>set tid. plain c" "\<forall>c\<in>set f. plain c" "\<forall>c\<in>set a. escapable c"
  shows \<open>tokenize (tool_object_text tid f a @ rest) =
         map_option ((@) [LBrace, TStr ''id'', Colon, TStr tid, Comma, TStr ''type'', Colon,
                         TStr ''function'', Comma, TStr ''function'', Colon, LBrace,
                         TStr ''name'', Colon, TStr f, Comma, TStr ''arguments'', Colon, TStr a,
                         RBrace, RBrace]) (tokenize rest)\<close>
  using assms
  by (cases "tokenize rest")
     (simp_all add: tool_object_text_def lex_string_plain lex_string_escaped tok_def is_ws_def
        is_control_def num_char_def)

lemma two_tool_calls_fragments:
  assumes "f0 \<noteq> []" "f1 \<noteq> []" "i1 \<noteq> 0"
    and "\<forall>a\<in>set as0. a \<noteq> []" "\<forall>a\<in>set as1. a \<noteq> []"
  shows \<open>concat (map message_content (streamable
            ([tool_open 0 id0 f0] @ map (tool_arguments 0) as0 @
             [tool_open i1 id1 f1] @ map (tool_arguments i1) as1 @ [finish ''tool_calls'']))) =
         ''{"tool_calls":[ '' @ tool_object_text id0 f0 (concat as0) @ '', '' @
         tool_object_text id1 f1 (concat as1) @ '']}''\<close>
  using assms
  by (simp add: streamable_def chunkToText_init_def chunkToText_tool_open
      streamable_from_tool_arguments chunkToText_finish_tool_calls comp_def
      cleanupArguments_concat [symmetric] map_concat tool_object_text_def)

text \<open>
  Claim C4, as stated: for every round in which two tool calls are streamed by
  index, the fragments concatenate to valid JSON with two tool-call objects, each
  with its own id, name and arguments. Two inputs show otherwise. An id is spliced
  into the text unescaped, so an id that contains a double quote gives text that
  does not parse. An argument increment is appended to the call opened last,
  whatever its index, so when both calls are opened before their arguments arrive,
  the first call ends with no arguments and the second with both increments.
\<close>

theorem two_tool_calls_fail:
  \<open>JSON_parse (concat (map message_content (streamable
      [tool_open 0 ''a"b'' ''f'', tool_open 1 ''c'' ''g'', finish ''tool_calls'']))) = None \<and>
   JSON_parse (concat (map message_content (streamable
      [tool_open 0 ''a'' ''f'', tool_open 1 ''b'' ''g'',
       tool_arguments 0 ''1'', tool_arguments 1 ''2'', finish ''tool_calls'']))) =
     Some (JObj [(''tool_calls'', JArr [tool_object ''a'' ''f'' [], tool_object ''b'' ''g'' ''12''])])\<close>
  by code_simp

text \<open>
  Claim C4, amended: when the argument increments of each tool call arrive before
  the next call is opened, the ids and names consist of characters that need no
  escaping in a JSON string, and the increments are not empty and hold no control
  character other than newline, carriage return, tab and form feed, then the
  emitted fragments concatenate to text that parses as the object
  \<open>{"tool_calls": [o0, o1]}\<close>, where each \<open>o\<close> has the id and name of its call, the
  type \<open>function\<close>, and as arguments the concatenation of its own increments.
\<close>

theorem two_tool_calls:
  assumes "f0 \<noteq> []" "f1 \<noteq> []" "i1 \<noteq> 0"
    and "\<forall>c\<in>set id0. plain c" "\<forall>c\<in>set f0. plain c"
    and "\<forall>c\<in>set id1. plain c" "\<forall>c\<in>set f1. plain c"
    and "\<forall>a\<in>set as0. a \<noteq> [] \<and> (\<forall>c\<in>set a. escapable c)"
    and "\<forall>a\<in>set as1. a \<noteq> [] \<and> (\<forall>c\<in>set a. escapable c)"
  shows \<open>JSON_parse (concat (map message_content (streamable
            ([tool_open 0 id0 f0] @ map (tool_arguments 0) as0 @
             [tool_open i1 id1 f1] @ map (tool_arguments i1) as1 @ [finish ''tool_calls'']))) ) =
         Some (JObj [(''tool_calls'',
                      JArr [tool_object id0 f0 (concat as0), tool_object id1 f1 (concat as1)])])\<close>
proof -
  have e0: "\<forall>c\<in>set (concat as0). escapable c" and e1: "\<forall>c\<in>set (concat as1). escapable c"
    using assms(8,9) by auto
  have n0: "\<forall>a\<in>set as0. a \<noteq> []" and n1: "\<forall>a\<in>set as1. a \<noteq> []"
    using assms(8,9) by auto
  note o0 = tokenize_tool_object [OF assms(4) assms(5) e0]
  note o1 = tokenize_tool_object [OF assms(6) assms(7) e1]
  show ?thesis
    unfolding two_tool_calls_fragments [OF assms(1,2,3) n0 n1]
    by (simp add: JSON_parse_def o0 o1 tok_def is_ws_def is_control_def num_char_def
        tool_object_def obj_put_def)
qed

theorem two_tool_calls_witness:
  \<open>list_all plain ''call_1'' \<and> list_all plain ''get_weather'' \<and>
   list_all (list_all escapable) [''{"city":'', [quote, CHR ''X'', newline, quote, CHR ''}'']] \<and>
   JSON_parse (concat (map message_content (streamable
     ([tool_open 0 ''call_1'' ''get_weather''] @
      map (tool_arguments 0) [''{"city":'', [quote, CHR ''X'', newline, quote, CHR ''}'']] @
      [tool_open 1 ''call_2'' ''get_time''] @ map (tool_arguments 1) [''{}''] @
      [finish ''tool_calls''])))) =
     Some (JObj [(''tool_calls'',
       JArr [tool_object ''call_1'' ''get_weather''
               (concat [''{"city":'', [quote, CHR ''X'', newline, quote, CHR ''}'']]),
             tool_object ''call_2'' ''get_time'' (concat [''{}''])])])\<close>
  using two_tool_calls [of \<open>''get_weather''\<close> \<open>''get_time''\<close> 1 \<open>''call_1''\<close> \<open>''call_2''\<close>
      \<open>[''{"city":'', [quote, CHR ''X'', newline, quote, CHR ''}'']]\<close> \<open>[''{}'']\<close>]
  by (simp add: plain_def escapable_def is_control_def)


section \<open>The trace of a run\<close>

lemma starts_append: "starts (xs @ ys) = starts xs + starts ys"
  by (induction xs rule: starts.induct) simp_all

lemma finals_append: "finals (xs @ ys) = finals xs @ finals ys"
  by (induction xs rule: finals.induct) simp_all

lemma completions_append: "completions (xs @ ys) = completions xs @ completions ys"
  by (induction xs rule: completions.induct) simp_all

lemma tokens_append: "tokens (xs @ ys) = tokens xs @ tokens ys"
  by (induction xs rule: tokens.induct) simp_all

lemma texts_append: "texts (xs @ ys) = texts xs @ texts ys"
  by (induction xs rule: texts.induct) simp_all

lemmas trace_append = starts_append finals_append completions_append tokens_append texts_append



















section \<open>Lifecycle hooks across recursive continuations\<close>













section \<open>Fragments of a call in progress\<close>

lemma decode_simple: "decode chunk = chunk"
  by (simp add: decode_def createChunkDecoder_def)

lemma transform_in_call:
  assumes "isFunctionStreamingIn_t st" "\<not> isFirstChunk st"
  shows "transform E cb st c =
    (st\<lparr>aggregatedFinalCompletionResponse := aggregatedFinalCompletionResponse st @ c,
        aggregatedResponse := aggregatedResponse st @ c\<rparr>, [])"
  using assms by (simp add: transform_def decode_simple Let_def)

lemma transform_all_in_call:
  assumes "isFunctionStreamingIn_t st" "\<not> isFirstChunk st"
  shows "transform_all E cb st cs =
    (st\<lparr>aggregatedFinalCompletionResponse := aggregatedFinalCompletionResponse st @ concat cs,
        aggregatedResponse := aggregatedResponse st @ concat cs\<rparr>, [])"
  using assms
  by (induction cs arbitrary: st) (simp_all add: transform_in_call)

lemma transform_text:
  assumes "isFirstChunk st" "\<not> isFunctionStreamingIn_t st" "\<not> opens_call c"
  shows "transform E cb st c =
    (st\<lparr>aggregatedFinalCompletionResponse := aggregatedFinalCompletionResponse st @ c\<rparr>,
     [forward E cb c])"
  using assms by (simp add: transform_def decode_simple Let_def opens_call_def forward_def)

lemma transform_opening:
  assumes "isFirstChunk st" "opens_call c"
  shows "transform E cb st c =
    (st\<lparr>aggregatedFinalCompletionResponse := aggregatedFinalCompletionResponse st @ c,
        isFunctionStreamingIn_t := True,
        aggregatedResponse := aggregatedResponse st @ c,
        isFirstChunk := False\<rparr>, [])"
  using assms by (simp add: transform_def decode_simple Let_def opens_call_def)

lemma transform_all_text:
  assumes "isFirstChunk st" "\<not> isFunctionStreamingIn_t st" "\<forall>c\<in>set pre. \<not> opens_call c"
  shows "transform_all E cb st (pre @ cs) =
    (fst (transform_all E cb
            (st\<lparr>aggregatedFinalCompletionResponse := aggregatedFinalCompletionResponse st @ concat pre\<rparr>) cs),
     map (forward E cb) pre @
     snd (transform_all E cb
            (st\<lparr>aggregatedFinalCompletionResponse := aggregatedFinalCompletionResponse st @ concat pre\<rparr>) cs))"
  using assms
proof (induction pre arbitrary: st)
  case Nil
  then show ?case by simp
next
  case (Cons c pre)
  then show ?case
    by (simp add: transform_text case_prod_beta)
qed

lemma hooks_of_messages:
  "texts (fst (createCallbacksTransformer cb (Readable ms e))) = (if onText cb then text_messages ms else [])"
  "tokens (fst (createCallbacksTransformer cb (Readable ms e))) = (if onToken cb then map message_content ms else [])"
proof -
  have t: "texts (concat (map (callbacks_transform cb) ms)) = (if onText cb then text_messages ms else [])"
    by (induction ms rule: text_messages.induct) (simp_all add: callbacks_transform_def trace_append)
  have k: "tokens (concat (map (callbacks_transform cb) ms)) = (if onToken cb then map message_content ms else [])"
    by (induction ms rule: text_messages.induct) (simp_all add: callbacks_transform_def trace_append)
  show "texts (fst (createCallbacksTransformer cb (Readable ms e))) = (if onText cb then text_messages ms else [])"
    using t by (simp add: createCallbacksTransformer_def callbacks_flush_def trace_append)
  show "tokens (fst (createCallbacksTransformer cb (Readable ms e))) = (if onToken cb then map message_content ms else [])"
    using k by (simp add: createCallbacksTransformer_def callbacks_flush_def trace_append)
qed


text \<open>
  Claim C9, as stated: while a call is in progress nothing is forwarded, and
  \<open>onToken\<close> and \<open>onText\<close> are invoked only for forwarded fragments. For the function
  call round nothing is forwarded before \<open>flush\<close> and \<open>onText\<close> is never invoked,
  but \<open>onToken\<close> is invoked for each of the four fragments of the call: the callbacks
  transformer calls it with the content of every message.
\<close>

theorem onToken_sees_call_fragments:
  "tokens (fst (OpenAIStream unused_imports (AsyncIterable function_call_round) (with_function_handler []))) =
     map message_content (streamable function_call_round) \<and>
   length (streamable function_call_round) = 4 \<and>
   forwarded unused_imports (AsyncIterable function_call_round) (with_function_handler []) = [] \<and>
   texts (fst (OpenAIStream unused_imports (AsyncIterable function_call_round) (with_function_handler []))) = []"
  by code_simp

text \<open>
  Claim C9, amended: from the first fragment that opens a call until \<open>flush\<close>, the
  function-call transformer forwards nothing and appends every fragment to the call
  buffer; what it forwards are the fragments before the call. \<open>onText\<close> is invoked
  for the text fragments only, never for a structured fragment of a call, and
  \<open>onToken\<close> is invoked for every fragment, those of a call in progress included.
\<close>

theorem call_fragments_buffered:
  assumes "\<forall>c\<in>set pre. \<not> opens_call c" "opens_call c0"
  shows "transform_all E cb fc_init (pre @ c0 # rest) =
           (\<lparr>isFirstChunk = False, aggregatedResponse = c0 @ concat rest,
             aggregatedFinalCompletionResponse = concat pre @ c0 @ concat rest,
             isFunctionStreamingIn_t = True\<rparr>,
            map (forward E cb) pre) \<and>
         texts (fst (createCallbacksTransformer cb (Readable ms e))) =
           (if onText cb then text_messages ms else []) \<and>
         tokens (fst (createCallbacksTransformer cb (Readable ms e))) =
           (if onToken cb then map message_content ms else [])"
  using assms
  by (simp add: hooks_of_messages transform_all_text transform_opening transform_all_in_call fc_init_def
      case_prod_beta)


theorem call_fragments_buffered_witness:
  \<open>list_all (\<lambda>c. \<not> opens_call c) [''Hi''] \<and>
   opens_call ''{"function_call": {"name": "f", "arguments": "'' \<and>
   transform_all unused_imports all_hooks fc_init
     ([''Hi''] @ ''{"function_call": {"name": "f", "arguments": "'' # [''{}'', ''"}}'']) =
     (\<lparr>isFirstChunk = False,
       aggregatedResponse = ''{"function_call": {"name": "f", "arguments": "{}"}}'',
       aggregatedFinalCompletionResponse = ''Hi{"function_call": {"name": "f", "arguments": "{}"}}'',
       isFunctionStreamingIn_t = True\<rparr>, [''Hi'']) \<and>
   texts (fst (createCallbacksTransformer all_hooks
                 (Readable [Text ''Hi'', Structured ''{}''] Closed))) = [''Hi''] \<and>
   tokens (fst (createCallbacksTransformer all_hooks
                  (Readable [Text ''Hi'', Structured ''{}''] Closed))) = [''Hi'', ''{}'']\<close>
proof -
  have h1: \<open>\<forall>c\<in>set [''Hi'']. \<not> opens_call c\<close> by code_simp
  have h2: \<open>opens_call ''{"function_call": {"name": "f", "arguments": "''\<close> by code_simp
  have f: "forward unused_imports all_hooks ''Hi'' = ''Hi''" by code_simp
  have t: "onText all_hooks" "onToken all_hooks" by code_simp+
  show ?thesis
    using call_fragments_buffered [OF h1 h2, of unused_imports all_hooks \<open>[''{}'', ''"}}'']\<close>
        \<open>[Text ''Hi'', Structured ''{}'']\<close> Closed] h1 h2 f t
    by simp
qed

section \<open>A call the handler declines, and a handler that throws\<close>









text \<open>
  Claim C6 says that an exception thrown by a function or tool handler is caught and
  logged and that the call is then emitted as a terminal frame. That is what happens
  to an exception of the tool handler. The call of the function handler is not
  inside a \<open>try\<close> with a \<open>catch\<close>: its exception leaves \<open>flush\<close>, nothing is logged or
  emitted, and the stream errors.
\<close>

theorem function_handler_exception_aborts:
  "snd (OpenAIStream unused_imports (AsyncIterable function_call_round) (with_function_handler [Throws])) =
     Readable [] (Errored Thrown) \<and>
   Console_error \<notin> set (fst (OpenAIStream unused_imports (AsyncIterable function_call_round)
                                (with_function_handler [Throws]))) \<and>
   snd (OpenAIStream unused_imports (AsyncIterable tool_call_round) (with_tool_handler [Throws])) =
     Readable [concat (map message_content (streamable tool_call_round))] Closed \<and>
   Console_error \<in> set (fst (OpenAIStream unused_imports (AsyncIterable tool_call_round)
                                (with_tool_handler [Throws])))"
  by code_simp

end
